theory Spec2Isabelle
  imports
    Complex_Main
    "HOL-Library.Char_ord"
    "HOL-Library.List_Lexorder"
    "HOL-Library.AList"
begin

section \<open>Attendance guardian: face matching, schedule resolution and absence alerts\<close>

text \<open>
  The development embeds the core of the classroom monitor: the face recognition service
  (\<^verbatim>\<open>FaceRecognitionService\<close>: \<^verbatim>\<open>initialize\<close>, \<^verbatim>\<open>detectFaces\<close>,
  \<^verbatim>\<open>extractFaceEmbedding\<close>, \<^verbatim>\<open>cropFaceFromImage\<close>, \<^verbatim>\<open>calculateSimilarity\<close>,
  \<^verbatim>\<open>matchFaceWithStudents\<close>) and the monitor component's schedule resolver
  (\<^verbatim>\<open>updateCurrentClassHour\<close>) and alert decision (\<^verbatim>\<open>checkAttendanceForMatches\<close>).

  Scores, confidences and embeddings are reals: sums, products, square roots and quotients
  are exact. \<^verbatim>\<open>calculateSimilarity\<close> is given a second time on doubles, with
  rounding, overflow, the two zeros, the infinities and NaN, for the property that depends
  on them. Asynchronous calls are modelled sequentially, one \<^verbatim>\<open>await\<close> after the
  other, as the source orders them.
\<close>

subsection \<open>Cosine similarity\<close>

text \<open>
  The accumulation loop of \<^verbatim>\<open>calculateSimilarity\<close>: one pass over the indices
  \<^verbatim>\<open>0 .. embedding1.length - 1\<close>, updating \<^verbatim>\<open>dotProduct\<close>, \<^verbatim>\<open>norm1\<close> and
  \<^verbatim>\<open>norm2\<close>. It is only entered with two arrays of the same length.
\<close>

fun similarity_loop :: "real list \<Rightarrow> real list \<Rightarrow> real \<times> real \<times> real \<Rightarrow> real \<times> real \<times> real" where
  "similarity_loop (x # xs) (y # ys) (dotProduct, norm1, norm2) =
     similarity_loop xs ys (dotProduct + x * y, norm1 + x * x, norm2 + y * y)"
| "similarity_loop _ _ acc = acc"

definition calculateSimilarity :: "real list \<Rightarrow> real list \<Rightarrow> real" where
  "calculateSimilarity embedding1 embedding2 =
     (if length embedding1 \<noteq> length embedding2 then 0
      else
        (case similarity_loop embedding1 embedding2 (0, 0, 0) of
           (dotProduct, n1, n2) \<Rightarrow>
             (let norm1 = sqrt n1; norm2 = sqrt n2
              in if norm1 = 0 \<or> norm2 = 0 then 0
                 else dotProduct / (norm1 * norm2))))"






subsection \<open>Cosine similarity on doubles\<close>

text \<open>
  The values of a JavaScript number: the finite doubles, with one constructor for each zero
  (\<open>Finite 0\<close> is \<^verbatim>\<open>+0\<close>), the two infinities and NaN. The operations below are
  those of IEEE 754 in round-to-nearest, as \<^verbatim>\<open>*\<close>, \<^verbatim>\<open>+\<close>, \<^verbatim>\<open>/\<close> and
  \<^verbatim>\<open>Math.sqrt\<close> compute them.
\<close>

datatype number = Finite real | NegZero | PosInfinity | NegInfinity | NaN

text \<open>
  Rounding of a real to the nearest double, ties to the even significand, with the exponent
  unbounded above: within the binade of \<open>x\<close>, and no lower than the subnormal range, the
  doubles are the multiples of \<open>ulp\<close>.
\<close>

definition round_to_double :: "real \<Rightarrow> real" where
  "round_to_double x =
     (if x = 0 then 0
      else
        (let e = max \<lfloor>log 2 \<bar>x\<bar>\<rfloor> (- 1022);
             ulp = 2 powr (of_int (e - 52));
             q = x / ulp;
             f = \<lfloor>q\<rfloor>;
             n = (if q - of_int f < 1 / 2 then f
                  else if 1 / 2 < q - of_int f then f + 1
                  else if even f then f else f + 1)
         in of_int n * ulp))"

definition zero_signed :: "bool \<Rightarrow> number" where
  "zero_signed negative = (if negative then NegZero else Finite 0)"

definition infinity_signed :: "bool \<Rightarrow> number" where
  "infinity_signed negative = (if negative then NegInfinity else PosInfinity)"

text \<open>
  The result of an operation whose exact value is \<open>r\<close>: an infinity from half an ulp above
  the largest double on, a zero of the given sign when \<open>r\<close> rounds to zero, the nearest
  double otherwise.
\<close>

definition round_signed :: "bool \<Rightarrow> real \<Rightarrow> number" where
  "round_signed negative r =
     (if 2 ^ 1024 - 2 ^ 970 \<le> r then PosInfinity
      else if r \<le> - (2 ^ 1024 - 2 ^ 970) then NegInfinity
      else (let d = round_to_double r in if d = 0 then zero_signed negative else Finite d))"

fun is_negative :: "number \<Rightarrow> bool" where
  "is_negative (Finite r) = (r < 0)"
| "is_negative NegZero = True"
| "is_negative NegInfinity = True"
| "is_negative _ = False"

fun is_zero :: "number \<Rightarrow> bool" where
  "is_zero (Finite r) = (r = 0)"
| "is_zero NegZero = True"
| "is_zero _ = False"

fun is_infinite :: "number \<Rightarrow> bool" where
  "is_infinite PosInfinity = True"
| "is_infinite NegInfinity = True"
| "is_infinite _ = False"

fun real_of_number :: "number \<Rightarrow> real" where
  "real_of_number (Finite r) = r"
| "real_of_number _ = 0"

definition js_multiply :: "number \<Rightarrow> number \<Rightarrow> number" where
  "js_multiply x y =
     (if x = NaN \<or> y = NaN then NaN
      else if is_infinite x \<or> is_infinite y then
        (if is_zero x \<or> is_zero y then NaN
         else infinity_signed (is_negative x \<noteq> is_negative y))
      else round_signed (is_negative x \<noteq> is_negative y) (real_of_number x * real_of_number y))"

definition js_add :: "number \<Rightarrow> number \<Rightarrow> number" where
  "js_add x y =
     (if x = NaN \<or> y = NaN then NaN
      else if x = PosInfinity then (if y = NegInfinity then NaN else PosInfinity)
      else if x = NegInfinity then (if y = PosInfinity then NaN else NegInfinity)
      else if is_infinite y then y
      else
        (let r = real_of_number x + real_of_number y
         in if r = 0 then zero_signed (is_negative x \<and> is_negative y)
            else round_signed (r < 0) r))"

definition js_divide :: "number \<Rightarrow> number \<Rightarrow> number" where
  "js_divide x y =
     (if x = NaN \<or> y = NaN then NaN
      else if is_infinite x then
        (if is_infinite y then NaN else infinity_signed (is_negative x \<noteq> is_negative y))
      else if is_infinite y then zero_signed (is_negative x \<noteq> is_negative y)
      else if is_zero y then
        (if is_zero x then NaN else infinity_signed (is_negative x \<noteq> is_negative y))
      else round_signed (is_negative x \<noteq> is_negative y) (real_of_number x / real_of_number y))"

fun Math_sqrt :: "number \<Rightarrow> number" where
  "Math_sqrt (Finite r) = (if r < 0 then NaN else round_signed False (sqrt r))"
| "Math_sqrt NegZero = NegZero"
| "Math_sqrt PosInfinity = PosInfinity"
| "Math_sqrt NegInfinity = NaN"
| "Math_sqrt NaN = NaN"

text \<open>
  \<^verbatim>\<open>===\<close> on two numbers, which is also what \<^verbatim>\<open>==\<close> does on them: NaN equals nothing,
  the two zeros equal each other.
\<close>

definition js_equals :: "number \<Rightarrow> number \<Rightarrow> bool" where
  "js_equals x y \<longleftrightarrow> x \<noteq> NaN \<and> y \<noteq> NaN \<and> (x = y \<or> is_zero x \<and> is_zero y)"

fun similarity_loop_double ::
  "number list \<Rightarrow> number list \<Rightarrow> number \<times> number \<times> number \<Rightarrow> number \<times> number \<times> number" where
  "similarity_loop_double (x # xs) (y # ys) (dotProduct, norm1, norm2) =
     similarity_loop_double xs ys
       (js_add dotProduct (js_multiply x y), js_add norm1 (js_multiply x x),
        js_add norm2 (js_multiply y y))"
| "similarity_loop_double _ _ acc = acc"

definition calculateSimilarity_double :: "number list \<Rightarrow> number list \<Rightarrow> number" where
  "calculateSimilarity_double embedding1 embedding2 =
     (if length embedding1 \<noteq> length embedding2 then Finite 0
      else
        (case similarity_loop_double embedding1 embedding2 (Finite 0, Finite 0, Finite 0) of
           (dotProduct, n1, n2) \<Rightarrow>
             (let norm1 = Math_sqrt n1; norm2 = Math_sqrt n2
              in if js_equals norm1 (Finite 0) \<or> js_equals norm2 (Finite 0) then Finite 0
                 else js_divide dotProduct (js_multiply norm1 norm2))))"

subsection \<open>The face recognition service\<close>

text \<open>Values thrown by the source (\<^verbatim>\<open>throw\<close>, a rejected promise).\<close>

datatype error = Error string

record Box =
  xmin :: real
  ymin :: real
  xmax :: real
  ymax :: real

text \<open>
  A region has a bounding box and a score. A raw result of the detection model carries a
  label besides; a \<^verbatim>\<open>DetectedFace\<close> has an optional embedding, which the service never
  fills in.
\<close>

record Region =
  box :: Box
  score :: real

record DetectionResult = Region +
  label :: string

record DetectedFace = Region +
  embedding :: "real list option"

record Student =
  id' :: string
  name :: string
  student_id :: string
  face_encoding :: "real list option"

record Match =
  student :: Student
  confidence :: real

type_synonym 'img detector_model = "'img \<Rightarrow> error + DetectionResult list"
type_synonym 'cv embedder_model = "'cv \<Rightarrow> error + real list"

text \<open>
  What the service reaches outside itself: the two \<^verbatim>\<open>pipeline(...)\<close> loads, each of
  which either throws or yields a model that itself either throws or answers; whether
  \<^verbatim>\<open>canvas.getContext('2d')\<close> yields a context; and the canvas \<^verbatim>\<open>drawImage\<close> leaves
  for an image and a box. An embedder model stands for \<^verbatim>\<open>toDataURL\<close>, the model call and
  \<^verbatim>\<open>Array.from(result.data)\<close> together.
\<close>

record ('img, 'cv) environment =
  pipeline_object_detection :: "error + 'img detector_model"
  pipeline_feature_extraction :: "error + 'cv embedder_model"
  getContext_2d :: bool
  drawImage :: "'img \<Rightarrow> Box \<Rightarrow> 'cv"

text \<open>The private fields of \<^verbatim>\<open>FaceRecognitionService\<close>; \<open>None\<close> is \<^verbatim>\<open>null\<close>.\<close>

record ('img, 'cv) service =
  detector :: "'img detector_model option"
  embedder :: "'cv embedder_model option"
  initialized :: bool

definition initialize ::
  "('img, 'cv) environment \<Rightarrow> ('img, 'cv) service \<Rightarrow> (error + unit) \<times> ('img, 'cv) service" where
  "initialize env s =
     (if initialized s then (Inr (), s)
      else
        (case pipeline_object_detection env of
           Inl e \<Rightarrow> (Inl e, s)
         | Inr d \<Rightarrow>
             (case pipeline_feature_extraction env of
                Inl e \<Rightarrow> (Inl e, s\<lparr>detector := Some d\<rparr>)
              | Inr em \<Rightarrow>
                  (Inr (), s\<lparr>detector := Some d, embedder := Some em, initialized := True\<rparr>))))"

text \<open>
  The \<^verbatim>\<open>try\<close> block of \<^verbatim>\<open>detectFaces\<close>: any exception in it, also the call of a
  detector that is still \<^verbatim>\<open>null\<close>, ends in \<^verbatim>\<open>return []\<close>.
\<close>

definition is_person_above_threshold :: "DetectionResult \<Rightarrow> bool" where
  "is_person_above_threshold result \<longleftrightarrow> label result = ''person'' \<and> score result > 0.5"

definition to_face :: "DetectionResult \<Rightarrow> DetectedFace" where
  "to_face result = \<lparr>box = box result, score = score result, embedding = None\<rparr>"

definition detect_try :: "('img, 'cv) service \<Rightarrow> 'img \<Rightarrow> DetectedFace list" where
  "detect_try s imageElement =
     (case detector s of
        None \<Rightarrow> []
      | Some d \<Rightarrow>
          (case d imageElement of
             Inl e \<Rightarrow> []
           | Inr results \<Rightarrow> map to_face (filter is_person_above_threshold results)))"

definition detectFaces ::
  "('img, 'cv) environment \<Rightarrow> ('img, 'cv) service \<Rightarrow> 'img \<Rightarrow>
     (error + DetectedFace list) \<times> ('img, 'cv) service" where
  "detectFaces env s imageElement =
     (if \<not> initialized s then
        (case initialize env s of
           (Inl e, s') \<Rightarrow> (Inl e, s')
         | (Inr u, s') \<Rightarrow> (Inr (detect_try s' imageElement), s'))
      else (Inr (detect_try s imageElement), s))"

definition embed_try :: "('img, 'cv) service \<Rightarrow> 'cv \<Rightarrow> real list" where
  "embed_try s faceImage =
     (case embedder s of
        None \<Rightarrow> []
      | Some em \<Rightarrow> (case em faceImage of Inl e \<Rightarrow> [] | Inr v \<Rightarrow> v))"

definition extractFaceEmbedding ::
  "('img, 'cv) environment \<Rightarrow> ('img, 'cv) service \<Rightarrow> 'cv \<Rightarrow>
     (error + real list) \<times> ('img, 'cv) service" where
  "extractFaceEmbedding env s faceImage =
     (if \<not> initialized s then
        (case initialize env s of
           (Inl e, s') \<Rightarrow> (Inl e, s')
         | (Inr u, s') \<Rightarrow> (Inr (embed_try s' faceImage), s'))
      else (Inr (embed_try s faceImage), s))"

definition cropFaceFromImage :: "('img, 'cv) environment \<Rightarrow> 'img \<Rightarrow> Box \<Rightarrow> error + 'cv" where
  "cropFaceFromImage env imageElement faceBox =
     (if \<not> getContext_2d env then Inl (Error ''Could not get canvas context'')
      else Inr (drawImage env imageElement faceBox))"

subsection \<open>Matching faces with students\<close>

definition threshold :: real where
  "threshold = 0.7"

text \<open>The inner loop: one probe embedding against every student, in roster order.\<close>

fun compare_with_students :: "real list \<Rightarrow> Student list \<Rightarrow> Match list" where
  "compare_with_students faceEmbedding [] = []"
| "compare_with_students faceEmbedding (st # students) =
     (case face_encoding st of
        None \<Rightarrow> compare_with_students faceEmbedding students
      | Some enc \<Rightarrow>
          (let similarity = calculateSimilarity faceEmbedding enc
           in if similarity > threshold
              then \<lparr>student = st, confidence = similarity\<rparr>
                     # compare_with_students faceEmbedding students
              else compare_with_students faceEmbedding students))"

text \<open>
  The outer loop over the detected faces. An exception inside the \<^verbatim>\<open>try\<close> (the crop, or
  the initialisation that \<^verbatim>\<open>extractFaceEmbedding\<close> may start) is caught and the loop goes
  on with the next face; an empty embedding skips the face too.
\<close>

fun collect_matches ::
  "('img, 'cv) environment \<Rightarrow> ('img, 'cv) service \<Rightarrow> 'img \<Rightarrow> Student list \<Rightarrow>
     DetectedFace list \<Rightarrow> Match list \<Rightarrow> Match list \<times> ('img, 'cv) service" where
  "collect_matches env s imageElement students [] matches = (matches, s)"
| "collect_matches env s imageElement students (face # faces) matches =
     (case cropFaceFromImage env imageElement (box face) of
        Inl e \<Rightarrow> collect_matches env s imageElement students faces matches
      | Inr faceCanvas \<Rightarrow>
          (case extractFaceEmbedding env s faceCanvas of
             (Inl e, s') \<Rightarrow> collect_matches env s' imageElement students faces matches
           | (Inr faceEmbedding, s') \<Rightarrow>
               (if faceEmbedding = []
                then collect_matches env s' imageElement students faces matches
                else collect_matches env s' imageElement students faces
                       (matches @ compare_with_students faceEmbedding students))))"

text \<open>
  \<^verbatim>\<open>uniqueMatches\<close> is an object literal \<^verbatim>\<open>{}\<close> used as a dictionary from student
  id to match. Its own properties are kept as an association list in insertion order:
  assigning to a new key appends, assigning to a present key replaces the value in place,
  which is what \<open>AList.update\<close> does.

  Reading \<^verbatim>\<open>uniqueMatches[studentId]\<close> finds an own property first and then the
  properties every object inherits from \<^verbatim>\<open>Object.prototype\<close>, which are functions or
  objects and so truthy, and have no \<^verbatim>\<open>confidence\<close>.
\<close>

type_synonym uniqueMatches = "(string \<times> Match) list"

definition Object_prototype_properties :: "string list" where
  "Object_prototype_properties =
     [''constructor'', ''__defineGetter__'', ''__defineSetter__'', ''hasOwnProperty'',
      ''__lookupGetter__'', ''__lookupSetter__'', ''isPrototypeOf'', ''propertyIsEnumerable'',
      ''toString'', ''valueOf'', ''__proto__'', ''toLocaleString'']"

datatype property = Own Match | Inherited | Undefined

definition get_property :: "uniqueMatches \<Rightarrow> string \<Rightarrow> property" where
  "get_property uniqueMatches key =
     (case map_of uniqueMatches key of
        Some match \<Rightarrow> Own match
      | None \<Rightarrow> if key \<in> set Object_prototype_properties then Inherited else Undefined)"

text \<open>
  The body of the deduplication loop. \<^verbatim>\<open>!uniqueMatches[studentId]\<close> holds only of
  \<^verbatim>\<open>undefined\<close>; for an inherited property the comparison is with its
  \<^verbatim>\<open>confidence\<close>, which is \<^verbatim>\<open>undefined\<close>, and a number is never greater than that:
  nothing is assigned.
\<close>

definition keep_highest :: "uniqueMatches \<Rightarrow> Match \<Rightarrow> uniqueMatches" where
  "keep_highest uniqueMatches match =
     (let studentId = id' (student match)
      in case get_property uniqueMatches studentId of
           Undefined \<Rightarrow> AList.update studentId match uniqueMatches
         | Inherited \<Rightarrow> uniqueMatches
         | Own current \<Rightarrow>
             (if confidence match > confidence current
              then AList.update studentId match uniqueMatches
              else uniqueMatches))"

text \<open>
  \<^verbatim>\<open>Object.values\<close> reads the own properties in the order of the language: first the
  keys that are array indices (the decimal numerals of 0 to 4294967294, without leading
  zeros) by ascending value, then the other keys in insertion order.
\<close>

definition is_digit :: "char \<Rightarrow> bool" where
  "is_digit c \<longleftrightarrow> c \<in> set ''0123456789''"

definition digits_value :: "string \<Rightarrow> nat" where
  "digits_value key = foldl (\<lambda>n c. 10 * n + (of_char c - 48)) 0 key"

definition is_array_index :: "string \<Rightarrow> bool" where
  "is_array_index key \<longleftrightarrow>
     key \<noteq> [] \<and> list_all is_digit key \<and> (key = ''0'' \<or> hd key \<noteq> CHR ''0'') \<and>
     digits_value key \<le> 4294967294"

definition Object_values :: "uniqueMatches \<Rightarrow> Match list" where
  "Object_values uniqueMatches =
     map snd
       (sort_key (\<lambda>p. digits_value (fst p)) (filter (\<lambda>p. is_array_index (fst p)) uniqueMatches)
        @ filter (\<lambda>p. \<not> is_array_index (fst p)) uniqueMatches)"

definition remove_duplicates :: "Match list \<Rightarrow> Match list" where
  "remove_duplicates matches = Object_values (foldl keep_highest [] matches)"

definition matchFaceWithStudents ::
  "('img, 'cv) environment \<Rightarrow> ('img, 'cv) service \<Rightarrow> DetectedFace list \<Rightarrow> 'img \<Rightarrow>
     Student list \<Rightarrow> Match list \<times> ('img, 'cv) service" where
  "matchFaceWithStudents env s detectedFaces imageElement students =
     (case collect_matches env s imageElement students detectedFaces [] of
        (matches, s') \<Rightarrow> (remove_duplicates matches, s'))"

subsection \<open>The schedule resolver\<close>

record Schedule =
  start :: string
  end' :: string
  time :: string
  isBreak :: bool

definition schedules :: "Schedule list" where
  "schedules =
     [\<lparr>start = ''09:00'', end' = ''10:00'', time = ''09:00:00'', isBreak = False\<rparr>,
      \<lparr>start = ''10:00'', end' = ''10:45'', time = ''10:00:00'', isBreak = False\<rparr>,
      \<lparr>start = ''10:46'', end' = ''10:59'', time = ''10:46:00'', isBreak = True\<rparr>,
      \<lparr>start = ''11:00'', end' = ''12:00'', time = ''11:00:00'', isBreak = False\<rparr>,
      \<lparr>start = ''12:00'', end' = ''12:45'', time = ''12:00:00'', isBreak = False\<rparr>,
      \<lparr>start = ''12:46'', end' = ''13:29'', time = ''12:46:00'', isBreak = True\<rparr>,
      \<lparr>start = ''13:30'', end' = ''14:30'', time = ''13:30:00'', isBreak = False\<rparr>,
      \<lparr>start = ''14:30'', end' = ''15:30'', time = ''14:30:00'', isBreak = False\<rparr>,
      \<lparr>start = ''15:31'', end' = ''15:44'', time = ''15:31:00'', isBreak = True\<rparr>,
      \<lparr>start = ''15:45'', end' = ''16:20'', time = ''15:45:00'', isBreak = False\<rparr>]"

text \<open>
  The predicate handed to \<^verbatim>\<open>find\<close>. The operands are strings, so \<^verbatim>\<open>>=\<close> and
  \<^verbatim>\<open><=\<close> compare them lexicographically by character code, which is the order of
  \<open>string\<close> here.
\<close>

definition in_schedule :: "string \<Rightarrow> Schedule \<Rightarrow> bool" where
  "in_schedule currentTime schedule \<longleftrightarrow>
     currentTime \<ge> start schedule \<and> currentTime \<le> end' schedule"

text \<open>The two pieces of component state the resolver sets.\<close>

record ClassHourState =
  currentClassHour :: string
  isBreakTime :: bool

definition resolveClassHour :: "Schedule list \<Rightarrow> string \<Rightarrow> ClassHourState" where
  "resolveClassHour configured currentTime =
     (case find (in_schedule currentTime) configured of
        Some currentSchedule \<Rightarrow>
          \<lparr>currentClassHour = time currentSchedule, isBreakTime = isBreak currentSchedule\<rparr>
      | None \<Rightarrow> \<lparr>currentClassHour = [], isBreakTime = False\<rparr>)"

text \<open>
  \<^verbatim>\<open>now.toTimeString().slice(0, 5)\<close> is the local time of day as \<^verbatim>\<open>HH:MM\<close>, both
  parts padded to two digits. The clock is read as hours (below 24) and minutes (below 60).
\<close>

definition digit :: "nat \<Rightarrow> char" where
  "digit n = ''0123456789'' ! n"

definition two_digits :: "nat \<Rightarrow> string" where
  "two_digits n = [digit (n div 10), digit (n mod 10)]"

definition toTimeString_slice :: "nat \<Rightarrow> nat \<Rightarrow> string" where
  "toTimeString_slice hours minutes = two_digits hours @ '':'' @ two_digits minutes"

definition updateCurrentClassHour :: "nat \<Rightarrow> nat \<Rightarrow> ClassHourState" where
  "updateCurrentClassHour hours minutes =
     resolveClassHour schedules (toTimeString_slice hours minutes)"

subsection \<open>The record store and the alert decision\<close>

text \<open>
  The three tables the decision reads and writes, with the columns the queries name. All
  three are keyed by student, date and class hour; \<open>student_id\<close> of a row refers to the
  \<open>id'\<close> of a student.
\<close>

record row_key =
  student_id :: string
  date :: string
  class_hour :: string

record attendance_record = row_key +
  status :: string

record duty_leave = row_key +
  reason :: "string option"

record notification = row_key +
  message :: string

datatype table = Attendance_records | Duty_leaves | Notifications

text \<open>
  The store behind the client. A request on a table in \<open>failing\<close> comes back with an error
  and \<^verbatim>\<open>data: null\<close>; the client does not throw.
\<close>

record supabase =
  attendance_records :: "attendance_record list"
  duty_leaves :: "duty_leave list"
  notifications :: "notification list"
  failing :: "table \<Rightarrow> bool"

text \<open>\<^verbatim>\<open>.eq('student_id', _).eq('date', _).eq('class_hour', _)\<close> on the rows of a table.\<close>

definition eq_key :: "string \<Rightarrow> string \<Rightarrow> string \<Rightarrow> 'a row_key_scheme \<Rightarrow> bool" where
  "eq_key sid d h r \<longleftrightarrow> student_id r = sid \<and> date r = d \<and> class_hour r = h"

definition select_eq ::
  "supabase \<Rightarrow> table \<Rightarrow> 'a row_key_scheme list \<Rightarrow> string \<Rightarrow> string \<Rightarrow> string \<Rightarrow>
     'a row_key_scheme list option" where
  "select_eq db t rows sid d h =
     (if failing db t then None else Some (filter (eq_key sid d h) rows))"

text \<open>
  \<^verbatim>\<open>insert\<close> into \<^verbatim>\<open>notifications\<close>. The table declares
  \<^verbatim>\<open>UNIQUE(student_id, date, class_hour)\<close>, so a row whose key is already there is
  rejected; the caller ignores the outcome.
\<close>

definition insert_notification :: "supabase \<Rightarrow> notification \<Rightarrow> supabase" where
  "insert_notification db row =
     (if failing db Notifications
         \<or> filter (eq_key (student_id row) (date row) (class_hour row)) (notifications db) \<noteq> []
      then db
      else db\<lparr>notifications := notifications db @ [row]\<rparr>)"

text \<open>\<^verbatim>\<open>!data || data.length === 0\<close>\<close>

definition no_rows :: "'a list option \<Rightarrow> bool" where
  "no_rows data \<longleftrightarrow> (case data of None \<Rightarrow> True | Some rows \<Rightarrow> rows = [])"

text \<open>The text of an alert: \<^verbatim>\<open>Math.round\<close> and the decimal form of an integer.\<close>

definition Math_round :: "real \<Rightarrow> int" where
  "Math_round x = \<lfloor>x + 1 / 2\<rfloor>"

fun show_nat :: "nat \<Rightarrow> string" where
  "show_nat n = (if n < 10 then [digit n] else show_nat (n div 10) @ [digit (n mod 10)])"

definition show_int :: "int \<Rightarrow> string" where
  "show_int i = (if i < 0 then ''-'' @ show_nat (nat (- i)) else show_nat (nat i))"

definition alert_message :: "Match \<Rightarrow> string" where
  "alert_message match =
     name (student match) @ '' detected without attendance or duty leave (confidence: ''
       @ show_int (Math_round (confidence match * 100)) @ ''%)''"

text \<open>
  The body of the loop of \<^verbatim>\<open>checkAttendanceForMatches\<close> for one match. Nothing in it
  throws for a match with a student, so its \<^verbatim>\<open>catch\<close> has no branch here.
\<close>

definition check_match :: "string \<Rightarrow> string \<Rightarrow> supabase \<Rightarrow> Match \<Rightarrow> supabase" where
  "check_match today classHour db match =
     (let attendanceData =
            select_eq db Attendance_records (attendance_records db)
              (id' (student match)) today classHour;
          dutyLeaveData =
            select_eq db Duty_leaves (duty_leaves db) (id' (student match)) today classHour
      in if no_rows attendanceData \<and> no_rows dutyLeaveData then
           (let existingNotification =
                  select_eq db Notifications (notifications db)
                    (id' (student match)) today classHour
            in if no_rows existingNotification then
                 insert_notification db
                   \<lparr>student_id = id' (student match), date = today, class_hour = classHour,
                    message = alert_message match\<rparr>
               else db)
         else db)"

definition checkAttendanceForMatches ::
  "ClassHourState \<Rightarrow> string \<Rightarrow> supabase \<Rightarrow> Match list \<Rightarrow> supabase" where
  "checkAttendanceForMatches st today db matches =
     (if isBreakTime st \<or> currentClassHour st = [] then db
      else foldl (check_match today (currentClassHour st)) db matches)"

text \<open>
  The function returns nothing; the alerts of a call are the rows it has added to
  \<^verbatim>\<open>notifications\<close>, which only ever grows at its end.
\<close>

definition alerts :: "ClassHourState \<Rightarrow> string \<Rightarrow> supabase \<Rightarrow> Match list \<Rightarrow> notification list" where
  "alerts st today db matches =
     drop (length (notifications db))
       (notifications (checkAttendanceForMatches st today db matches))"

definition alerts_for :: "string \<Rightarrow> notification list \<Rightarrow> notification list" where
  "alerts_for sid events = filter (\<lambda>n. student_id n = sid) events"

text \<open>
  The two lookups of the decision as the specification names them. A valid excuse in its
  words is a record marked present, or a duty leave: \<open>spec_valid_excuse\<close> says one is
  stored, \<open>valid_excuse_found\<close> that the lookup answers and finds one.
  \<open>notification_exists\<close> says a notification is stored for the key.
\<close>

definition spec_valid_excuse :: "supabase \<Rightarrow> string \<Rightarrow> string \<Rightarrow> string \<Rightarrow> bool" where
  "spec_valid_excuse db sid d h \<longleftrightarrow>
     (\<exists>r \<in> set (attendance_records db). eq_key sid d h r \<and> status r = ''present'') \<or>
     (\<exists>r \<in> set (duty_leaves db). eq_key sid d h r)"

definition valid_excuse_found :: "supabase \<Rightarrow> string \<Rightarrow> string \<Rightarrow> string \<Rightarrow> bool" where
  "valid_excuse_found db sid d h \<longleftrightarrow>
     (\<not> failing db Attendance_records \<and>
        (\<exists>r \<in> set (attendance_records db). eq_key sid d h r \<and> status r = ''present'')) \<or>
     (\<not> failing db Duty_leaves \<and> (\<exists>r \<in> set (duty_leaves db). eq_key sid d h r))"

definition stored_for :: "string \<Rightarrow> string \<Rightarrow> string \<Rightarrow> supabase \<Rightarrow> notification list" where
  "stored_for sid d h db = filter (eq_key sid d h) (notifications db)"

definition notification_exists :: "supabase \<Rightarrow> string \<Rightarrow> string \<Rightarrow> string \<Rightarrow> bool" where
  "notification_exists db sid d h \<longleftrightarrow> stored_for sid d h db \<noteq> []"

definition alert_row :: "string \<Rightarrow> string \<Rightarrow> Match \<Rightarrow> notification" where
  "alert_row today classHour match =
     \<lparr>student_id = id' (student match), date = today, class_hour = classHour,
      message = alert_message match\<rparr>"

definition no_excuse_found :: "supabase \<Rightarrow> string \<Rightarrow> string \<Rightarrow> string \<Rightarrow> bool" where
  "no_excuse_found db sid today classHour \<longleftrightarrow>
     no_rows (select_eq db Attendance_records (attendance_records db) sid today classHour) \<and>
     no_rows (select_eq db Duty_leaves (duty_leaves db) sid today classHour)"

text \<open>
  The probe embeddings the outer loop obtains, in detection order: the faces whose crop, or
  whose embedding, fails or comes out empty are left out, as the loop skips them.
\<close>

fun probe_embeddings ::
  "('img, 'cv) environment \<Rightarrow> ('img, 'cv) service \<Rightarrow> 'img \<Rightarrow> DetectedFace list \<Rightarrow> real list list" where
  "probe_embeddings env s imageElement [] = []"
| "probe_embeddings env s imageElement (face # faces) =
     (case cropFaceFromImage env imageElement (box face) of
        Inl e \<Rightarrow> probe_embeddings env s imageElement faces
      | Inr faceCanvas \<Rightarrow>
          (case extractFaceEmbedding env s faceCanvas of
             (Inl e, s') \<Rightarrow> probe_embeddings env s' imageElement faces
           | (Inr faceEmbedding, s') \<Rightarrow>
               (if faceEmbedding = []
                then probe_embeddings env s' imageElement faces
                else faceEmbedding # probe_embeddings env s' imageElement faces)))"

text \<open>
  The candidate matches before deduplication: every probe, in detection order, against every
  student, in roster order.
\<close>

definition candidates ::
  "('img, 'cv) environment \<Rightarrow> ('img, 'cv) service \<Rightarrow> 'img \<Rightarrow> Student list \<Rightarrow>
     DetectedFace list \<Rightarrow> Match list" where
  "candidates env s imageElement students faces =
     concat (map (\<lambda>faceEmbedding. compare_with_students faceEmbedding students)
               (probe_embeddings env s imageElement faces))"

definition identity :: "Match \<Rightarrow> string" where
  "identity match = id' (student match)"

text \<open>
  A candidate \<open>u\<close> is the first of the highest of its identity in \<open>ms\<close>: every
  candidate of the identity before it is strictly lower, and none after it is higher.
\<close>

definition first_highest :: "Match list \<Rightarrow> Match \<Rightarrow> bool" where
  "first_highest ms u \<longleftrightarrow>
     (\<exists>pre post. ms = pre @ u # post \<and>
        (\<forall>c \<in> set pre. identity c = identity u \<longrightarrow> confidence c < confidence u) \<and>
        (\<forall>c \<in> set post. identity c = identity u \<longrightarrow> confidence c \<le> confidence u))"

subsection \<open>Facts about the similarity loop\<close>




subsection \<open>Symmetry on doubles\<close>

lemma js_multiply_commute: "js_multiply x y = js_multiply y x"
proof -
  have sign: "(is_negative x \<noteq> is_negative y) = (is_negative y \<noteq> is_negative x)"
    by auto
  have nan: "(x = NaN \<or> y = NaN) = (y = NaN \<or> x = NaN)"
    and inf: "(is_infinite x \<or> is_infinite y) = (is_infinite y \<or> is_infinite x)"
    and zero: "(is_zero x \<or> is_zero y) = (is_zero y \<or> is_zero x)"
    by auto
  show ?thesis
    unfolding js_multiply_def sign nan inf zero by (simp only: mult.commute)
qed

lemma similarity_loop_double_swap:
  "similarity_loop_double b a (d, n, m) =
     (case similarity_loop_double a b (d, m, n) of (d', m', n') \<Rightarrow> (d', n', m'))"
proof (induction a arbitrary: b d m n)
  case Nil
  show ?case by (cases b) simp_all
next
  case (Cons x xs)
  show ?case
  proof (cases b)
    case Nil
    then show ?thesis by simp
  next
    case (Cons y ys)
    then show ?thesis
      using Cons.IH [of ys "js_add d (js_multiply x y)" "js_add n (js_multiply y y)"
          "js_add m (js_multiply x x)"]
      by (simp add: js_multiply_commute [of y x])
  qed
qed

lemma calculateSimilarity_double_same:
  "calculateSimilarity_double a b = calculateSimilarity_double b a"
proof (cases "length a = length b")
  case False
  then show ?thesis by (auto simp add: calculateSimilarity_double_def)
next
  case True
  obtain d m n where l: "similarity_loop_double a b (Finite 0, Finite 0, Finite 0) = (d, m, n)"
    by (cases "similarity_loop_double a b (Finite 0, Finite 0, Finite 0)") auto
  have "similarity_loop_double b a (Finite 0, Finite 0, Finite 0) = (d, n, m)"
    using similarity_loop_double_swap [of b a "Finite 0" "Finite 0" "Finite 0"] l by simp
  with l True show ?thesis
    by (auto simp add: calculateSimilarity_double_def Let_def
        js_multiply_commute [of "Math_sqrt n" "Math_sqrt m"])
qed

lemma squares_overflow:
  assumes "2 ^ 1024 - 2 ^ 970 \<le> r * r"
  shows "calculateSimilarity_double [Finite r] [Finite r] = NaN"
proof -
  have square: "js_multiply (Finite r) (Finite r) = PosInfinity"
    using assms by (simp add: js_multiply_def round_signed_def)
  have sum: "js_add (Finite 0) PosInfinity = PosInfinity"
    by (simp add: js_add_def)
  have product: "js_multiply PosInfinity PosInfinity = PosInfinity"
    by (simp add: js_multiply_def infinity_signed_def)
  have quotient: "js_divide PosInfinity PosInfinity = NaN"
    by (simp add: js_divide_def)
  have nonzero: "\<not> js_equals PosInfinity (Finite 0)"
    by (simp add: js_equals_def)
  show ?thesis
    by (simp add: calculateSimilarity_double_def square sum product quotient nonzero)
qed

lemma round_to_double_zero: "round_to_double 0 = 0"
  by (simp add: round_to_double_def)

text \<open>A real that is a whole number of ulps of its binade is a double: rounding keeps it.\<close>

lemma round_to_double_exact:
  assumes "x \<noteq> 0"
    and "x / 2 powr (of_int (max \<lfloor>log 2 \<bar>x\<bar>\<rfloor> (- 1022) - 52)) = of_int k"
  shows "round_to_double x = x"
proof -
  let ?ulp = "2 powr (of_int (max \<lfloor>log 2 \<bar>x\<bar>\<rfloor> (- 1022) - 52)) :: real"
  have positive: "0 < ?ulp"
    by simp
  have whole: "\<lfloor>x / ?ulp\<rfloor> = k"
    unfolding assms(2) by simp
  have restored: "of_int k * ?ulp = x"
    using assms(2) positive by (simp add: field_simps)
  have "round_to_double x = of_int k * ?ulp"
    unfolding round_to_double_def Let_def whole assms(2) using assms(1) by simp
  with restored show ?thesis
    by simp
qed

lemma round_to_double_one: "round_to_double 1 = 1"
proof (rule round_to_double_exact [of 1 "2 ^ 52"])
  show "(1::real) \<noteq> 0"
    by simp
  have exponent: "max \<lfloor>log 2 \<bar>1::real\<bar>\<rfloor> (- 1022) - 52 = - 52"
    by simp
  have ulp: "(2::real) powr (of_int (- 52)) = 1 / 2 ^ 52"
    using powr_real_of_int [of "2::real" "- 52"] by (simp add: inverse_eq_divide)
  show "(1::real) / 2 powr (of_int (max \<lfloor>log 2 \<bar>1\<bar>\<rfloor> (- 1022) - 52)) = of_int (2 ^ 52)"
    unfolding exponent ulp
    by (simp only: of_int_power of_int_numeral divide_divide_eq_right mult_1 div_by_1)
qed

lemma round_signed_one: "round_signed negative 1 = Finite 1"
proof -
  have "(1::real) < 2 ^ 1024 - 2 ^ 970"
    by simp
  then show ?thesis
    by (simp add: round_signed_def round_to_double_one)
qed

text \<open>
  C6, as stated, fails on doubles: \<open>2 ^ 600\<close> is a double whose square overflows, so for
  the vector of that one entry against itself the dot product and both norms are infinite,
  the quotient of two infinities is NaN, and NaN is not \<^verbatim>\<open>==\<close> to itself.
\<close>

theorem calculateSimilarity_nan_counterexample:
  "calculateSimilarity_double [Finite (2 ^ 600)] [Finite (2 ^ 600)] = NaN \<and>
   \<not> js_equals (calculateSimilarity_double [Finite (2 ^ 600)] [Finite (2 ^ 600)])
         (calculateSimilarity_double [Finite (2 ^ 600)] [Finite (2 ^ 600)])"
proof -
  have "(2::real) ^ 600 * 2 ^ 600 = 2 ^ 1200"
    by (simp only: power_add [symmetric]) simp
  moreover have "(2::real) ^ 1024 \<le> 2 ^ 1200"
    by (rule power_increasing) simp_all
  moreover have "(2::real) ^ 1024 - 2 ^ 970 \<le> 2 ^ 1024"
    by (simp only: diff_le_eq le_add_same_cancel1 zero_le_power zero_le_numeral)
  ultimately have "(2::real) ^ 1024 - 2 ^ 970 \<le> 2 ^ 600 * 2 ^ 600"
    by (simp only: order_trans)
  then have nan: "calculateSimilarity_double [Finite (2 ^ 600)] [Finite (2 ^ 600)] = NaN"
    by (rule squares_overflow)
  show ?thesis
    unfolding nan by (simp add: js_equals_def)
qed

text \<open>
  C6, amended. For all vectors of numbers, \<^verbatim>\<open>calculateSimilarity(a, b)\<close> and
  \<^verbatim>\<open>calculateSimilarity(b, a)\<close> are the same value, and they are \<^verbatim>\<open>==\<close> exactly
  when that value is not NaN.
\<close>

theorem calculateSimilarity_double_symmetric:
  "calculateSimilarity_double a b = calculateSimilarity_double b a \<and>
   (js_equals (calculateSimilarity_double a b) (calculateSimilarity_double b a)
      \<longleftrightarrow> calculateSimilarity_double a b \<noteq> NaN)"
proof -
  have same: "calculateSimilarity_double b a = calculateSimilarity_double a b"
    by (rule calculateSimilarity_double_same)
  show ?thesis
    unfolding same by (simp add: js_equals_def)
qed

theorem calculateSimilarity_double_symmetric_witness:
  "calculateSimilarity_double [Finite 1, Finite 0] [Finite 0, Finite 1] = Finite 0 \<and>
   calculateSimilarity_double [Finite 0, Finite 1] [Finite 1, Finite 0] = Finite 0 \<and>
   calculateSimilarity_double [Finite 1, Finite 0] [Finite 0, Finite 1] \<noteq> NaN \<and>
   js_equals (calculateSimilarity_double [Finite 1, Finite 0] [Finite 0, Finite 1])
     (calculateSimilarity_double [Finite 0, Finite 1] [Finite 1, Finite 0]) \<and>
   calculateSimilarity_double [Finite 1, Finite 0] [Finite 1, Finite 0] = Finite 1"
proof -
  have products: "js_multiply (Finite 1) (Finite 1) = Finite 1"
    "js_multiply (Finite 1) (Finite 0) = Finite 0" "js_multiply (Finite 0) (Finite 1) = Finite 0"
    "js_multiply (Finite 0) (Finite 0) = Finite 0"
    by (simp_all add: js_multiply_def round_signed_one)
      (simp_all add: round_signed_def round_to_double_zero zero_signed_def)
  have sums: "js_add (Finite 0) (Finite 0) = Finite 0" "js_add (Finite 0) (Finite 1) = Finite 1"
    "js_add (Finite 1) (Finite 0) = Finite 1"
    by (simp_all add: js_add_def round_signed_one zero_signed_def)
  have root: "Math_sqrt (Finite 1) = Finite 1"
    by (simp add: round_signed_one)
  have quotients: "js_divide (Finite 0) (Finite 1) = Finite 0"
    "js_divide (Finite 1) (Finite 1) = Finite 1"
    by (simp_all add: js_divide_def round_signed_one)
      (simp add: round_signed_def round_to_double_zero zero_signed_def)
  have nonzero: "\<not> js_equals (Finite 1) (Finite 0)"
    by (simp add: js_equals_def)
  have orthogonal:
    "calculateSimilarity_double [Finite 1, Finite 0] [Finite 0, Finite 1] = Finite 0"
    by (simp add: calculateSimilarity_double_def products sums root quotients nonzero
        del: Math_sqrt.simps)
  have parallel:
    "calculateSimilarity_double [Finite 1, Finite 0] [Finite 1, Finite 0] = Finite 1"
    by (simp add: calculateSimilarity_double_def products sums root quotients nonzero
        del: Math_sqrt.simps)
  from calculateSimilarity_double_symmetric [of "[Finite 1, Finite 0]" "[Finite 0, Finite 1]"]
    orthogonal parallel
  show ?thesis
    by (auto simp add: js_equals_def)
qed

subsection \<open>The detector\<close>

lemma detect_try_results:
  "detector s = Some d \<Longrightarrow> d imageElement = Inr results \<Longrightarrow>
   detect_try s imageElement = map to_face (filter is_person_above_threshold results)"
  by (simp add: detect_try_def)

lemma detect_try_throws:
  "detector s = Some d \<Longrightarrow> d imageElement = Inl e \<Longrightarrow> detect_try s imageElement = []"
  by (simp add: detect_try_def)

lemma detectFaces_after_initialize:
  "initialize env s = (Inr (), s1) \<Longrightarrow>
   detectFaces env s imageElement = (Inr (detect_try s1 imageElement), s1)"
  by (auto simp add: detectFaces_def initialize_def)

lemma initialize_loads:
  "\<not> initialized s \<Longrightarrow> pipeline_object_detection env = Inr d \<Longrightarrow>
   pipeline_feature_extraction env = Inr em \<Longrightarrow>
   initialize env s = (Inr (), s\<lparr>detector := Some d, embedder := Some em, initialized := True\<rparr>)"
  by (simp add: initialize_def)

lemma initialize_fails:
  "\<not> initialized s \<Longrightarrow>
   pipeline_object_detection env = Inl e
     \<or> (\<exists>d. pipeline_object_detection env = Inr d \<and> pipeline_feature_extraction env = Inl e) \<Longrightarrow>
   fst (initialize env s) = Inl e"
  by (auto simp add: initialize_def)

text \<open>
  C7. Whenever the detection model answers (the service being initialised, or initialising
  now without failure), \<^verbatim>\<open>detectFaces\<close> returns, in order, exactly the regions of the
  answer labelled \<^verbatim>\<open>person\<close> whose score is strictly greater than 0.5, each as its box
  and score: every returned score exceeds 0.5, so a score equal to 0.5 is left out, and when no
  region qualifies the result is the empty sequence, not an error.
\<close>

theorem detectFaces_person_above_half:
  assumes "initialize env s = (Inr (), s1)"
    and "detector s1 = Some d"
    and "d imageElement = Inr results"
  shows "\<exists>faces.
           fst (detectFaces env s imageElement) = Inr faces \<and>
           faces = map (\<lambda>r. \<lparr>box = box r, score = score r, embedding = None\<rparr>)
                     (filter (\<lambda>r. label r = ''person'' \<and> 1 / 2 < score r) results) \<and>
           (\<forall>f \<in> set faces. 1 / 2 < score f) \<and>
           ((\<forall>r \<in> set results. \<not> (label r = ''person'' \<and> 1 / 2 < score r)) \<longrightarrow> faces = [])"
proof -
  have sel: "is_person_above_threshold = (\<lambda>r. label r = ''person'' \<and> 1 / 2 < score r)"
    by (simp add: is_person_above_threshold_def fun_eq_iff)
  have face: "to_face = (\<lambda>r. \<lparr>box = box r, score = score r, embedding = None\<rparr>)"
    by (simp add: to_face_def fun_eq_iff)
  have "fst (detectFaces env s imageElement)
          = Inr (map to_face (filter is_person_above_threshold results))"
    using detectFaces_after_initialize [OF assms(1)] detect_try_results [OF assms(2,3)]
    by simp
  then show ?thesis
    unfolding sel face by (auto simp add: filter_empty_conv)
qed

theorem detectFaces_person_above_half_witness:
  "let results =
         [\<lparr>box = \<lparr>xmin = 0, ymin = 0, xmax = 4, ymax = 4\<rparr>, score = 9 / 10, label = ''person''\<rparr>,
          \<lparr>box = \<lparr>xmin = 1, ymin = 1, xmax = 2, ymax = 2\<rparr>, score = 1 / 2, label = ''person''\<rparr>,
          \<lparr>box = \<lparr>xmin = 2, ymin = 2, xmax = 3, ymax = 3\<rparr>, score = 9 / 10, label = ''chair''\<rparr>];
       d = (\<lambda>i :: unit. Inr results);
       s = \<lparr>detector = Some d, embedder = None, initialized = True\<rparr>;
       env = \<lparr>pipeline_object_detection = Inl (Error ''offline''),
              pipeline_feature_extraction = Inl (Error ''offline''),
              getContext_2d = True, drawImage = (\<lambda>i b. ())\<rparr>
   in initialize env s = (Inr (), s) \<and> detector s = Some d \<and> d () = Inr results \<and>
      fst (detectFaces env s ())
        = Inr [\<lparr>box = \<lparr>xmin = 0, ymin = 0, xmax = 4, ymax = 4\<rparr>, score = 9 / 10,
                embedding = None\<rparr>]"
proof -
  let ?results =
        "[\<lparr>box = \<lparr>xmin = 0, ymin = 0, xmax = 4, ymax = 4\<rparr>, score = 9 / 10, label = ''person''\<rparr>,
          \<lparr>box = \<lparr>xmin = 1, ymin = 1, xmax = 2, ymax = 2\<rparr>, score = 1 / 2, label = ''person''\<rparr>,
          \<lparr>box = \<lparr>xmin = 2, ymin = 2, xmax = 3, ymax = 3\<rparr>, score = 9 / 10, label = ''chair''\<rparr>]"
  let ?d = "\<lambda>i :: unit. Inr ?results :: error + DetectionResult list"
  let ?s = "\<lparr>detector = Some ?d, embedder = None :: unit embedder_model option,
             initialized = True\<rparr>"
  let ?env = "\<lparr>pipeline_object_detection = Inl (Error ''offline''),
              pipeline_feature_extraction = Inl (Error ''offline''),
              getContext_2d = True, drawImage = (\<lambda>(i :: unit) b. ())\<rparr>"
  from detectFaces_person_above_half [of ?env ?s ?s ?d "()" ?results]
  show ?thesis
    by (simp add: Let_def initialize_def)
qed

text \<open>
  C10. The two kinds of failure end differently. When the detection model throws at
  inference, on a service already initialised or one whose models load now,
  \<^verbatim>\<open>detectFaces\<close> returns the empty sequence, as it does for an answer without
  detections. When a service not yet initialised fails to load either model, the exception
  of the load leaves \<^verbatim>\<open>detectFaces\<close>.
\<close>

theorem detectFaces_error_asymmetry:
  "(initialized s \<and> detector s = Some d \<and> d imageElement = Inl e
      \<longrightarrow> fst (detectFaces env s imageElement) = Inr []) \<and>
   (\<not> initialized s \<and> pipeline_object_detection env = Inr d
      \<and> pipeline_feature_extraction env = Inr em \<and> d imageElement = Inl e
      \<longrightarrow> fst (detectFaces env s imageElement) = Inr []) \<and>
   (\<not> initialized s \<and>
      (pipeline_object_detection env = Inl e
        \<or> (\<exists>d'. pipeline_object_detection env = Inr d' \<and> pipeline_feature_extraction env = Inl e))
      \<longrightarrow> fst (detectFaces env s imageElement) = Inl e)"
proof (intro conjI impI)
  assume "initialized s \<and> detector s = Some d \<and> d imageElement = Inl e"
  then show "fst (detectFaces env s imageElement) = Inr []"
    by (simp add: detectFaces_def detect_try_throws)
next
  assume a: "\<not> initialized s \<and> pipeline_object_detection env = Inr d
      \<and> pipeline_feature_extraction env = Inr em \<and> d imageElement = Inl e"
  then have "initialize env s
      = (Inr (), s\<lparr>detector := Some d, embedder := Some em, initialized := True\<rparr>)"
    by (simp add: initialize_loads)
  from detectFaces_after_initialize [OF this] a
  show "fst (detectFaces env s imageElement) = Inr []"
    by (simp add: detect_try_def)
next
  assume a: "\<not> initialized s \<and>
      (pipeline_object_detection env = Inl e
        \<or> (\<exists>d'. pipeline_object_detection env = Inr d' \<and> pipeline_feature_extraction env = Inl e))"
  then have "fst (initialize env s) = Inl e"
    using initialize_fails [of s env e] by blast
  with a show "fst (detectFaces env s imageElement) = Inl e"
    by (cases "initialize env s") (simp add: detectFaces_def)
qed

theorem detectFaces_error_asymmetry_witness:
  "let throwing = (\<lambda>i :: unit. Inl (Error ''inference''));
       embedding = (\<lambda>c :: unit. Inr [1]);
       ready = \<lparr>detector = Some throwing, embedder = Some embedding, initialized = True\<rparr>;
       fresh = \<lparr>detector = None, embedder = None, initialized = False\<rparr>;
       loading = \<lparr>pipeline_object_detection = Inr throwing,
                  pipeline_feature_extraction = Inr embedding,
                  getContext_2d = True, drawImage = (\<lambda>i b. ())\<rparr>;
       offline = \<lparr>pipeline_object_detection = Inl (Error ''load''),
                  pipeline_feature_extraction = Inr embedding,
                  getContext_2d = True, drawImage = (\<lambda>i b. ())\<rparr>
   in initialized ready \<and> detector ready = Some throwing \<and>
      throwing () = Inl (Error ''inference'') \<and>
      fst (detectFaces offline ready ()) = Inr [] \<and>
      \<not> initialized fresh \<and> pipeline_object_detection loading = Inr throwing \<and>
      pipeline_feature_extraction loading = Inr embedding \<and>
      fst (detectFaces loading fresh ()) = Inr [] \<and>
      pipeline_object_detection offline = Inl (Error ''load'') \<and>
      fst (detectFaces offline fresh ()) = Inl (Error ''load'')"
proof -
  let ?throwing = "\<lambda>i :: unit. Inl (Error ''inference'') :: error + DetectionResult list"
  let ?embedding = "\<lambda>c :: unit. Inr [1] :: error + real list"
  let ?ready = "\<lparr>detector = Some ?throwing, embedder = Some ?embedding, initialized = True\<rparr>"
  let ?fresh = "\<lparr>detector = None :: unit detector_model option,
                 embedder = None :: unit embedder_model option, initialized = False\<rparr>"
  let ?loading = "\<lparr>pipeline_object_detection = Inr ?throwing,
                  pipeline_feature_extraction = Inr ?embedding,
                  getContext_2d = True, drawImage = (\<lambda>(i :: unit) b. ())\<rparr>"
  let ?offline = "\<lparr>pipeline_object_detection = Inl (Error ''load''),
                  pipeline_feature_extraction = Inr ?embedding,
                  getContext_2d = True, drawImage = (\<lambda>(i :: unit) b. ())\<rparr>"
  note inference = detectFaces_error_asymmetry
    [of ?ready ?throwing "()" "Error ''inference''" ?offline ?embedding]
  note inference_after_load = detectFaces_error_asymmetry
    [of ?fresh ?throwing "()" "Error ''inference''" ?loading ?embedding]
  note load = detectFaces_error_asymmetry
    [of ?fresh ?throwing "()" "Error ''load''" ?offline ?embedding]
  from inference inference_after_load load show ?thesis
    by (simp add: Let_def)
qed

subsection \<open>The alert decision\<close>

text \<open>
  C3. During a break, or with no class hour resolved, \<^verbatim>\<open>checkAttendanceForMatches\<close>
  leaves the store as it is and raises no alert, whatever the matches and whatever the
  store holds or answers.
\<close>

theorem checkAttendanceForMatches_suppressed:
  "isBreakTime st \<or> currentClassHour st = [] \<Longrightarrow>
   checkAttendanceForMatches st today db matches = db \<and> alerts st today db matches = []"
  by (auto simp add: checkAttendanceForMatches_def alerts_def)

theorem checkAttendanceForMatches_suppressed_witness:
  "let st = \<lparr>currentClassHour = ''10:46:00'', isBreakTime = True\<rparr>;
       db = \<lparr>attendance_records = [], duty_leaves = [], notifications = [],
             failing = (\<lambda>t. False)\<rparr>;
       matches = [\<lparr>student = \<lparr>id' = ''u1'', name = ''Student 1'',
                                Student.student_id = ''S001'', face_encoding = Some [1, 0]\<rparr>,
                    confidence = 1\<rparr>]
   in (isBreakTime st \<or> currentClassHour st = []) \<and>
      checkAttendanceForMatches st ''2025-01-15'' db matches = db \<and>
      alerts st ''2025-01-15'' db matches = []"
proof -
  let ?st = "\<lparr>currentClassHour = ''10:46:00'', isBreakTime = True\<rparr>"
  have break: "isBreakTime ?st \<or> currentClassHour ?st = []"
    by simp
  from checkAttendanceForMatches_suppressed [OF break] break show ?thesis
    by (simp add: Let_def)
qed

subsection \<open>One pass over the matches\<close>

lemma check_match_cases:
  "check_match today h db m = db \<or>
   (check_match today h db m = db\<lparr>notifications := notifications db @ [alert_row today h m]\<rparr> \<and>
    \<not> failing db Notifications \<and>
    filter (eq_key (id' (student m)) today h) (notifications db) = [] \<and>
    no_excuse_found db (id' (student m)) today h)"
  by (simp add: check_match_def Let_def insert_notification_def alert_row_def
      no_excuse_found_def)

lemma check_match_frame:
  "attendance_records (check_match today h db m) = attendance_records db \<and>
   duty_leaves (check_match today h db m) = duty_leaves db \<and>
   failing (check_match today h db m) = failing db"
  using check_match_cases [of today h db m] by auto

lemma no_excuse_found_check_match:
  "no_excuse_found (check_match today h db m) sid d h' = no_excuse_found db sid d h'"
  using check_match_frame [of today h db m] by (simp add: no_excuse_found_def select_eq_def)

text \<open>
  The rows a pass adds: each is the alert of one of the matches, for today and the class
  hour, and no attendance record and no duty leave was found for its student.
\<close>

lemma foldl_check_match_new:
  "\<exists>new. notifications (foldl (check_match today h) db ms) = notifications db @ new \<and>
     (\<forall>n \<in> set new. \<exists>m \<in> set ms. n = alert_row today h m \<and>
         no_excuse_found db (id' (student m)) today h)"
proof (induction ms arbitrary: db)
  case Nil
  show ?case by simp
next
  case (Cons m ms)
  let ?db1 = "check_match today h db m"
  obtain new where new: "notifications (foldl (check_match today h) ?db1 ms)
        = notifications ?db1 @ new"
    and from_ms: "\<forall>n \<in> set new. \<exists>m' \<in> set ms. n = alert_row today h m' \<and>
         no_excuse_found ?db1 (id' (student m')) today h"
    using Cons.IH [of ?db1] by blast
  note same = no_excuse_found_check_match [of today h db m]
  from check_match_cases [of today h db m] show ?case
  proof
    assume "?db1 = db"
    with new from_ms show ?thesis by auto
  next
    assume ins: "?db1 = db\<lparr>notifications := notifications db @ [alert_row today h m]\<rparr> \<and>
      \<not> failing db Notifications \<and>
      filter (eq_key (id' (student m)) today h) (notifications db) = [] \<and>
      no_excuse_found db (id' (student m)) today h"
    then have "notifications ?db1 = notifications db @ [alert_row today h m]"
      by simp
    with new have "notifications (foldl (check_match today h) db (m # ms))
        = notifications db @ (alert_row today h m # new)"
      by simp
    moreover have "\<forall>n \<in> set (alert_row today h m # new). \<exists>m' \<in> set (m # ms).
        n = alert_row today h m' \<and> no_excuse_found db (id' (student m')) today h"
      using from_ms ins unfolding same by auto
    ultimately show ?thesis by blast
  qed
qed

lemma alerts_new:
  assumes "\<not> isBreakTime st" and "currentClassHour st \<noteq> []"
  shows "notifications (checkAttendanceForMatches st today db ms)
           = notifications db @ alerts st today db ms \<and>
         (\<forall>n \<in> set (alerts st today db ms). \<exists>m \<in> set ms.
            n = alert_row today (currentClassHour st) m \<and>
            no_excuse_found db (id' (student m)) today (currentClassHour st))"
proof -
  obtain new where "notifications (foldl (check_match today (currentClassHour st)) db ms)
        = notifications db @ new"
    and "\<forall>n \<in> set new. \<exists>m \<in> set ms. n = alert_row today (currentClassHour st) m \<and>
         no_excuse_found db (id' (student m)) today (currentClassHour st)"
    using foldl_check_match_new [of today "currentClassHour st" db ms] by blast
  with assms show ?thesis
    by (simp add: alerts_def checkAttendanceForMatches_def)
qed

text \<open>
  Where the excuse lookup answers and finds a record marked present, or a duty leave, for a
  matched student, the pass raises no alert for that student, whatever the confidence.
\<close>

lemma answered_lookup_no_alert:
  assumes "m \<in> set matches"
    and "valid_excuse_found db (id' (student m)) today (currentClassHour st)"
  shows "alerts_for (id' (student m)) (alerts st today db matches) = []"
proof (cases "isBreakTime st \<or> currentClassHour st = []")
  case True
  then show ?thesis
    by (auto simp add: checkAttendanceForMatches_def alerts_def alerts_for_def)
next
  case False
  then have active: "\<not> isBreakTime st" "currentClassHour st \<noteq> []" by simp_all
  have found: "\<not> no_excuse_found db (id' (student m)) today (currentClassHour st)"
    using assms(2)
    by (auto simp add: valid_excuse_found_def no_excuse_found_def select_eq_def no_rows_def
        filter_empty_conv)
  have new: "\<forall>n \<in> set (alerts st today db matches). \<exists>m' \<in> set matches.
      n = alert_row today (currentClassHour st) m' \<and>
      no_excuse_found db (id' (student m')) today (currentClassHour st)"
    using alerts_new [OF active, of today db matches] by (rule conjunct2)
  have "student_id n \<noteq> id' (student m)" if "n \<in> set (alerts st today db matches)" for n
  proof
    assume sid: "student_id n = id' (student m)"
    from new that have "\<exists>m' \<in> set matches.
      n = alert_row today (currentClassHour st) m' \<and>
      no_excuse_found db (id' (student m')) today (currentClassHour st)"
      by (rule bspec)
    then obtain m' where n: "n = alert_row today (currentClassHour st) m'"
      and m': "no_excuse_found db (id' (student m')) today (currentClassHour st)"
      by (elim bexE conjE)
    from n sid have "id' (student m') = id' (student m)"
      by (simp add: alert_row_def)
    with m' found show False by simp
  qed
  then show ?thesis
    by (simp add: alerts_for_def filter_empty_conv)
qed

text \<open>
  C2. A matched student for whom a record marked present exists should get no alert. The
  code gives one when the attendance query fails: the store holds the record, the query
  comes back with \<^verbatim>\<open>data: null\<close>, which the code reads as no record, no duty leave and
  no notification are found, and a notification for the student is inserted.
\<close>

theorem failed_lookup_alert:
  "spec_valid_excuse
     \<lparr>attendance_records =
        [\<lparr>student_id = ''u1'', date = ''2025-01-15'', class_hour = ''09:00:00'',
          status = ''present''\<rparr>],
      duty_leaves = [], notifications = [], failing = (\<lambda>t. t = Attendance_records)\<rparr>
     ''u1'' ''2025-01-15'' ''09:00:00'' \<and>
   map student_id
     (alerts \<lparr>currentClassHour = ''09:00:00'', isBreakTime = False\<rparr> ''2025-01-15''
        \<lparr>attendance_records =
           [\<lparr>student_id = ''u1'', date = ''2025-01-15'', class_hour = ''09:00:00'',
             status = ''present''\<rparr>],
         duty_leaves = [], notifications = [], failing = (\<lambda>t. t = Attendance_records)\<rparr>
        [\<lparr>student = \<lparr>id' = ''u1'', name = ''Student 1'', Student.student_id = ''S001'',
                      face_encoding = Some [1, 0]\<rparr>, confidence = 1\<rparr>])
     = [''u1'']"
  by (simp add: spec_valid_excuse_def eq_key_def alerts_def checkAttendanceForMatches_def
      check_match_def select_eq_def no_rows_def insert_notification_def)

text \<open>
  C1. A matched student with no record marked present, no duty leave and no notification
  should get exactly one alert in an active class hour. The code gives none to a student
  marked absent: the attendance query does not read \<^verbatim>\<open>status\<close>, finds the record marked
  absent and takes it for valid attendance.
\<close>

theorem absent_record_no_alert:
  "\<not> isBreakTime \<lparr>currentClassHour = ''09:00:00'', isBreakTime = False\<rparr> \<and>
   currentClassHour \<lparr>currentClassHour = ''09:00:00'', isBreakTime = False\<rparr> \<noteq> [] \<and>
   \<not> spec_valid_excuse
       \<lparr>attendance_records =
          [\<lparr>student_id = ''u1'', date = ''2025-01-15'', class_hour = ''09:00:00'',
            status = ''absent''\<rparr>],
        duty_leaves = [], notifications = [], failing = (\<lambda>t. False)\<rparr>
       ''u1'' ''2025-01-15'' ''09:00:00'' \<and>
   \<not> notification_exists
       \<lparr>attendance_records =
          [\<lparr>student_id = ''u1'', date = ''2025-01-15'', class_hour = ''09:00:00'',
            status = ''absent''\<rparr>],
        duty_leaves = [], notifications = [], failing = (\<lambda>t. False)\<rparr>
       ''u1'' ''2025-01-15'' ''09:00:00'' \<and>
   alerts \<lparr>currentClassHour = ''09:00:00'', isBreakTime = False\<rparr> ''2025-01-15''
     \<lparr>attendance_records =
        [\<lparr>student_id = ''u1'', date = ''2025-01-15'', class_hour = ''09:00:00'',
          status = ''absent''\<rparr>],
      duty_leaves = [], notifications = [], failing = (\<lambda>t. False)\<rparr>
     [\<lparr>student = \<lparr>id' = ''u1'', name = ''Student 1'', Student.student_id = ''S001'',
                   face_encoding = Some [1, 0]\<rparr>, confidence = 1\<rparr>] = []"
  by (simp add: spec_valid_excuse_def notification_exists_def stored_for_def eq_key_def
      alerts_def checkAttendanceForMatches_def check_match_def select_eq_def no_rows_def)

subsection \<open>The schedule resolver\<close>

lemma digit_code: "n < 10 \<Longrightarrow> of_char (digit n) = 48 + n"
proof -
  have "\<forall>k \<in> set [0..<10]. of_char (digit k) = (48 + k :: nat)"
    by (simp add: upt_rec digit_def)
  then show "n < 10 \<Longrightarrow> of_char (digit n) = 48 + n"
    by simp
qed

lemma digit_less: "a < 10 \<Longrightarrow> b < 10 \<Longrightarrow> digit a < digit b \<longleftrightarrow> a < b"
  by (simp add: less_char_def digit_code)

lemma digit_eq: "a < 10 \<Longrightarrow> b < 10 \<Longrightarrow> digit a = digit b \<longleftrightarrow> a = b"
  by (metis digit_code add_left_cancel)

lemma decimal_order:
  fixes qa ra qb rb :: nat
  assumes "ra < 10" "rb < 10"
  shows "qa * 10 + ra < qb * 10 + rb \<longleftrightarrow> qa < qb \<or> qa = qb \<and> ra < rb"
    and "qa * 10 + ra = qb * 10 + rb \<longleftrightarrow> qa = qb \<and> ra = rb"
proof -
  show lt: "qa * 10 + ra < qb * 10 + rb \<longleftrightarrow> qa < qb \<or> qa = qb \<and> ra < rb"
    using assms by linarith
  have gt: "qb * 10 + rb < qa * 10 + ra \<longleftrightarrow> qb < qa \<or> qb = qa \<and> rb < ra"
    using assms by linarith
  have "qa * 10 + ra = qb * 10 + rb \<longleftrightarrow>
        \<not> qa * 10 + ra < qb * 10 + rb \<and> \<not> qb * 10 + rb < qa * 10 + ra"
    by linarith
  also have "\<dots> \<longleftrightarrow> qa = qb \<and> ra = rb"
    unfolding lt gt by linarith
  finally show "qa * 10 + ra = qb * 10 + rb \<longleftrightarrow> qa = qb \<and> ra = rb" .
qed

text \<open>Two-digit numerals are ordered as the numbers they write.\<close>

lemma two_digits_less:
  assumes "a < 100" and "b < 100"
  shows "two_digits a @ xs < two_digits b @ ys \<longleftrightarrow> a < b \<or> a = b \<and> xs < ys"
proof -
  have d: "a div 10 < 10" "b div 10 < 10" "a mod 10 < 10" "b mod 10 < 10"
    using assms by auto
  have lt: "a < b \<longleftrightarrow> a div 10 < b div 10 \<or> a div 10 = b div 10 \<and> a mod 10 < b mod 10"
    using decimal_order(1) [OF d(3) d(4), of "a div 10" "b div 10"] by simp
  have eq: "a = b \<longleftrightarrow> a div 10 = b div 10 \<and> a mod 10 = b mod 10"
    using decimal_order(2) [OF d(3) d(4), of "a div 10" "b div 10"] by simp
  show ?thesis
    unfolding lt eq using d by (auto simp add: two_digits_def digit_less digit_eq)
qed

lemma toTimeString_slice_less:
  assumes "h1 < 24" "m1 < 60" "h2 < 24" "m2 < 60"
  shows "toTimeString_slice h1 m1 < toTimeString_slice h2 m2
           \<longleftrightarrow> h1 * 60 + m1 < h2 * 60 + m2"
proof -
  have "two_digits m1 < two_digits m2 \<longleftrightarrow> m1 < m2"
    using two_digits_less [of m1 m2 "[]" "[]"] assms by simp
  then have "toTimeString_slice h1 m1 < toTimeString_slice h2 m2
      \<longleftrightarrow> h1 < h2 \<or> h1 = h2 \<and> m1 < m2"
    using assms by (simp add: toTimeString_slice_def two_digits_less)
  also have "\<dots> \<longleftrightarrow> h1 * 60 + m1 < h2 * 60 + m2"
    using assms by arith
  finally show ?thesis .
qed

lemma toTimeString_slice_le:
  assumes "h1 < 24" "m1 < 60" "h2 < 24" "m2 < 60"
  shows "toTimeString_slice h1 m1 \<le> toTimeString_slice h2 m2
           \<longleftrightarrow> h1 * 60 + m1 \<le> h2 * 60 + m2"
  using toTimeString_slice_less [OF assms(3,4,1,2)] by (simp add: not_less [symmetric])

text \<open>The bounds of the configured windows are times of day in the clock's format.\<close>

lemma schedules_bounds:
  "map (\<lambda>w. (start w, end' w)) schedules =
   map (\<lambda>(h1, m1, h2, m2). (toTimeString_slice h1 m1, toTimeString_slice h2 m2))
     [(9, 0, 10, 0), (10, 0, 10, 45), (10, 46, 10, 59), (11, 0, 12, 0), (12, 0, 12, 45),
      (12, 46, 13, 29), (13, 30, 14, 30), (14, 30, 15, 30), (15, 31, 15, 44), (15, 45, 16, 20)]"
  by (simp add: schedules_def toTimeString_slice_def two_digits_def digit_def)

text \<open>
  C8. The resolver yields the label and break flag of the first window, in configured
  order, that contains the time between its start and its end, both included; a window
  whose start is not after its end contains its own end; for bounds and a clock reading in
  the format \<^verbatim>\<open>HH:MM\<close>, containment of strings is containment of times of day; and when
  no window contains the time, the class hour is the empty string and the break flag is
  false. \<^verbatim>\<open>updateCurrentClassHour\<close> is this resolver on the built-in schedule at the
  reading of the clock.
\<close>

theorem resolveClassHour_first_window:
  "((\<exists>i < length configured.
        in_schedule t (configured ! i) \<and> (\<forall>j < i. \<not> in_schedule t (configured ! j)) \<and>
        resolveClassHour configured t =
          \<lparr>currentClassHour = time (configured ! i), isBreakTime = isBreak (configured ! i)\<rparr>)
     \<or> ((\<forall>w \<in> set configured. \<not> in_schedule t w) \<and>
         resolveClassHour configured t = \<lparr>currentClassHour = [], isBreakTime = False\<rparr>)) \<and>
   (start w \<le> end' w \<longrightarrow> in_schedule (end' w) w) \<and>
   (hours < 24 \<and> minutes < 60 \<and> h1 < 24 \<and> m1 < 60 \<and> h2 < 24 \<and> m2 < 60 \<and>
    start w = toTimeString_slice h1 m1 \<and> end' w = toTimeString_slice h2 m2
      \<longrightarrow> (in_schedule (toTimeString_slice hours minutes) w
             \<longleftrightarrow> h1 * 60 + m1 \<le> hours * 60 + minutes \<and> hours * 60 + minutes \<le> h2 * 60 + m2)) \<and>
   updateCurrentClassHour hours minutes
     = resolveClassHour schedules (toTimeString_slice hours minutes)"
proof (intro conjI)
  show "(\<exists>i < length configured.
        in_schedule t (configured ! i) \<and> (\<forall>j < i. \<not> in_schedule t (configured ! j)) \<and>
        resolveClassHour configured t =
          \<lparr>currentClassHour = time (configured ! i), isBreakTime = isBreak (configured ! i)\<rparr>)
     \<or> ((\<forall>w \<in> set configured. \<not> in_schedule t w) \<and>
         resolveClassHour configured t = \<lparr>currentClassHour = [], isBreakTime = False\<rparr>)"
  proof (cases "find (in_schedule t) configured")
    case None
    then have "\<forall>w \<in> set configured. \<not> in_schedule t w"
      by (auto simp add: find_None_iff)
    with None show ?thesis by (simp add: resolveClassHour_def)
  next
    case (Some cur)
    then obtain i where "i < length configured" "in_schedule t (configured ! i)"
      "cur = configured ! i" "\<forall>j < i. \<not> in_schedule t (configured ! j)"
      unfolding find_Some_iff by blast
    with Some show ?thesis by (auto simp add: resolveClassHour_def)
  qed
  show "start w \<le> end' w \<longrightarrow> in_schedule (end' w) w"
    by (simp add: in_schedule_def)
  show "hours < 24 \<and> minutes < 60 \<and> h1 < 24 \<and> m1 < 60 \<and> h2 < 24 \<and> m2 < 60 \<and>
    start w = toTimeString_slice h1 m1 \<and> end' w = toTimeString_slice h2 m2
      \<longrightarrow> (in_schedule (toTimeString_slice hours minutes) w
             \<longleftrightarrow> h1 * 60 + m1 \<le> hours * 60 + minutes \<and> hours * 60 + minutes \<le> h2 * 60 + m2)"
    by (simp add: in_schedule_def toTimeString_slice_le)
  show "updateCurrentClassHour hours minutes
     = resolveClassHour schedules (toTimeString_slice hours minutes)"
    by (simp add: updateCurrentClassHour_def)
qed

theorem resolveClassHour_first_window_witness:
  "in_schedule (toTimeString_slice 10 0) (schedules ! 0) \<and>
   in_schedule (toTimeString_slice 10 0) (schedules ! 1) \<and>
   start (schedules ! 0) \<le> end' (schedules ! 0) \<and>
   start (schedules ! 0) = toTimeString_slice 9 0 \<and>
   end' (schedules ! 0) = toTimeString_slice 10 0 \<and>
   updateCurrentClassHour 10 0 = \<lparr>currentClassHour = ''09:00:00'', isBreakTime = False\<rparr> \<and>
   updateCurrentClassHour 10 1 = \<lparr>currentClassHour = ''10:00:00'', isBreakTime = False\<rparr> \<and>
   updateCurrentClassHour 10 46 = \<lparr>currentClassHour = ''10:46:00'', isBreakTime = True\<rparr> \<and>
   updateCurrentClassHour 16 20 = \<lparr>currentClassHour = ''15:45:00'', isBreakTime = False\<rparr> \<and>
   filter (in_schedule (toTimeString_slice 16 21)) schedules = [] \<and>
   updateCurrentClassHour 16 21 = \<lparr>currentClassHour = [], isBreakTime = False\<rparr> \<and>
   updateCurrentClassHour 8 59 = \<lparr>currentClassHour = [], isBreakTime = False\<rparr>"
  using resolveClassHour_first_window
    [of schedules "toTimeString_slice 10 0" "schedules ! 0" 10 0 9 0 10 0]
    resolveClassHour_first_window
    [of schedules "toTimeString_slice 16 21" "schedules ! 0" 16 21 9 0 10 0]
  by (simp add: updateCurrentClassHour_def resolveClassHour_def schedules_def in_schedule_def
      toTimeString_slice_def two_digits_def digit_def)

subsection \<open>The matcher\<close>

lemma collect_matches_candidates:
  "fst (collect_matches env s imageElement students faces matches)
     = matches @ candidates env s imageElement students faces"
proof (induction faces arbitrary: s matches)
  case Nil
  show ?case by (simp add: candidates_def)
next
  case (Cons face faces)
  show ?case
  proof (cases "cropFaceFromImage env imageElement (box face)")
    case (Inl e)
    then show ?thesis using Cons.IH by (simp add: candidates_def)
  next
    case (Inr faceCanvas)
    obtain r s' where ex: "extractFaceEmbedding env s faceCanvas = (r, s')"
      by (cases "extractFaceEmbedding env s faceCanvas")
    show ?thesis
    proof (cases r)
      case (Inl e)
      with Inr ex show ?thesis using Cons.IH by (simp add: candidates_def)
    next
      case emb: (Inr faceEmbedding)
      with Inr ex show ?thesis using Cons.IH by (simp add: candidates_def)
    qed
  qed
qed

lemma compare_with_students_set:
  "c \<in> set (compare_with_students e students) \<longleftrightarrow>
     (\<exists>st \<in> set students. \<exists>enc. face_encoding st = Some enc \<and>
        calculateSimilarity e enc > threshold \<and>
        c = \<lparr>student = st, confidence = calculateSimilarity e enc\<rparr>)"
  by (induction students) (auto simp add: Let_def split: option.splits)


text \<open>
  What the dictionary holds after the deduplication loop has read the candidates \<open>ms\<close>:
  one entry per identity seen, namely a candidate of that identity before which every
  candidate of the identity has a strictly lower confidence and after which none has a
  higher one.
\<close>

lemma keep_highest_cases:
  "(map_of (keep_highest um m) = map_of um \<and>
      (map_of um (identity m) = None \<longrightarrow> identity m \<in> set Object_prototype_properties) \<and>
      (\<forall>cur. map_of um (identity m) = Some cur \<longrightarrow> \<not> confidence cur < confidence m))
   \<or> (map_of (keep_highest um m) = (map_of um)(identity m \<mapsto> m) \<and>
      (map_of um (identity m) = None \<longrightarrow> identity m \<notin> set Object_prototype_properties) \<and>
      (\<forall>cur. map_of um (identity m) = Some cur \<longrightarrow> confidence cur < confidence m))"
  by (simp add: keep_highest_def get_property_def identity_def Let_def update_conv'
      split: option.splits)

lemma keep_highest_distinct:
  "distinct (map fst um) \<Longrightarrow> distinct (map fst (keep_highest um m))"
  by (simp add: keep_highest_def get_property_def Let_def distinct_update
      split: option.splits)

lemma foldl_keep_highest_distinct:
  "distinct (map fst um) \<Longrightarrow> distinct (map fst (foldl keep_highest um ms))"
  by (induction ms arbitrary: um) (simp_all add: keep_highest_distinct)

lemma first_highest_snoc_other:
  assumes "first_highest ms u" and "identity m = identity u \<longrightarrow> confidence m \<le> confidence u"
  shows "first_highest (ms @ [m]) u"
proof -
  from assms(1) obtain pre post where "ms = pre @ u # post"
    and "\<forall>c \<in> set pre. identity c = identity u \<longrightarrow> confidence c < confidence u"
    and "\<forall>c \<in> set post. identity c = identity u \<longrightarrow> confidence c \<le> confidence u"
    unfolding first_highest_def by blast
  with assms(2) have "ms @ [m] = pre @ u # (post @ [m]) \<and>
      (\<forall>c \<in> set pre. identity c = identity u \<longrightarrow> confidence c < confidence u) \<and>
      (\<forall>c \<in> set (post @ [m]). identity c = identity u \<longrightarrow> confidence c \<le> confidence u)"
    by auto
  then show ?thesis unfolding first_highest_def by blast
qed

lemma first_highest_snoc_new:
  assumes "\<forall>c \<in> set ms. identity c = identity m \<longrightarrow> confidence c < confidence m"
  shows "first_highest (ms @ [m]) m"
  unfolding first_highest_def using assms by (intro exI [of _ ms] exI [of _ "[]"]) simp

lemma first_highest_bound:
  assumes "first_highest ms u" and "c \<in> set ms" and "identity c = identity u"
  shows "confidence c \<le> confidence u"
proof -
  from assms(1) obtain pre post where ms: "ms = pre @ u # post"
    and pre: "\<forall>c \<in> set pre. identity c = identity u \<longrightarrow> confidence c < confidence u"
    and post: "\<forall>c \<in> set post. identity c = identity u \<longrightarrow> confidence c \<le> confidence u"
    unfolding first_highest_def by blast
  from assms(2) ms have "c \<in> set pre \<or> c = u \<or> c \<in> set post" by auto
  with pre post assms(3) show ?thesis by fastforce
qed

lemma first_highest_mem: "first_highest ms u \<Longrightarrow> u \<in> set ms"
  unfolding first_highest_def by auto

lemma foldl_keep_highest_entries:
  "(\<forall>k u. map_of (foldl keep_highest [] ms) k = Some u \<longrightarrow>
      identity u = k \<and> k \<notin> set Object_prototype_properties \<and> first_highest ms u) \<and>
   (\<forall>c \<in> set ms. identity c \<notin> set Object_prototype_properties \<longrightarrow>
      map_of (foldl keep_highest [] ms) (identity c) \<noteq> None)"
proof (induction ms rule: rev_induct)
  case Nil
  show ?case by simp
next
  case (snoc m ms)
  let ?um = "foldl keep_highest [] ms"
  let ?proto = "set Object_prototype_properties"
  from snoc have entries: "\<And>k u. map_of ?um k = Some u \<Longrightarrow>
      identity u = k \<and> k \<notin> ?proto \<and> first_highest ms u"
    and seen: "\<And>c. c \<in> set ms \<Longrightarrow> identity c \<notin> ?proto \<Longrightarrow> map_of ?um (identity c) \<noteq> None"
    by blast+
  have step: "foldl keep_highest [] (ms @ [m]) = keep_highest ?um m" by simp
  from keep_highest_cases [of ?um m] show ?case
  proof (elim disjE conjE)
    assume mo: "map_of (keep_highest ?um m) = map_of ?um"
      and inherited: "map_of ?um (identity m) = None \<longrightarrow> identity m \<in> ?proto"
      and lower: "\<forall>cur. map_of ?um (identity m) = Some cur \<longrightarrow> \<not> confidence cur < confidence m"
    have "identity u = k \<and> k \<notin> ?proto \<and> first_highest (ms @ [m]) u"
      if "map_of (keep_highest ?um m) k = Some u" for k u
    proof -
      from that mo have old: "map_of ?um k = Some u" by simp
      with entries have ku: "identity u = k" "k \<notin> ?proto" "first_highest ms u" by blast+
      have "identity m = identity u \<longrightarrow> confidence m \<le> confidence u"
        using ku(1) old lower by auto
      with ku first_highest_snoc_other [of ms u m] show ?thesis by simp
    qed
    moreover have "map_of (keep_highest ?um m) (identity c) \<noteq> None"
      if "c \<in> set (ms @ [m])" "identity c \<notin> ?proto" for c
      using that seen mo inherited by auto
    ultimately show ?thesis unfolding step by blast
  next
    assume mo: "map_of (keep_highest ?um m) = (map_of ?um)(identity m \<mapsto> m)"
      and own: "map_of ?um (identity m) = None \<longrightarrow> identity m \<notin> ?proto"
      and higher: "\<forall>cur. map_of ?um (identity m) = Some cur \<longrightarrow> confidence cur < confidence m"
    have clean: "identity m \<notin> ?proto"
      using own entries by (cases "map_of ?um (identity m)") auto
    have below: "\<forall>c \<in> set ms. identity c = identity m \<longrightarrow> confidence c < confidence m"
    proof (cases "map_of ?um (identity m)")
      case None
      with seen clean show ?thesis by metis
    next
      case (Some cur)
      with entries have cur: "identity cur = identity m" "first_highest ms cur" by blast+
      from Some higher have "confidence cur < confidence m" by simp
      with first_highest_bound [OF cur(2)] cur(1) show ?thesis by fastforce
    qed
    have "identity u = k \<and> k \<notin> ?proto \<and> first_highest (ms @ [m]) u"
      if "map_of (keep_highest ?um m) k = Some u" for k u
    proof (cases "k = identity m")
      case True
      with that mo have "u = m" by simp
      with True clean first_highest_snoc_new [OF below] show ?thesis by simp
    next
      case False
      with that mo have old: "map_of ?um k = Some u" by simp
      with entries have "identity u = k" "k \<notin> ?proto" "first_highest ms u" by blast+
      with False first_highest_snoc_other [of ms u m] show ?thesis by simp
    qed
    moreover have "map_of (keep_highest ?um m) (identity c) \<noteq> None"
      if "c \<in> set (ms @ [m])" "identity c \<notin> ?proto" for c
      using that seen mo by auto
    ultimately show ?thesis unfolding step by blast
  qed
qed

lemma Object_values_set: "set (Object_values um) = snd ` set um"
  by (auto simp add: Object_values_def)

lemma Object_values_keys:
  assumes "distinct (map fst um)"
  shows "distinct (map fst
           (sort_key (\<lambda>p. digits_value (fst p)) (filter (\<lambda>p. is_array_index (fst p)) um)
            @ filter (\<lambda>p. \<not> is_array_index (fst p)) um))"
proof -
  from assms have d: "distinct um" and inj: "inj_on fst (set um)"
    by (simp_all add: distinct_map)
  let ?ordered = "sort_key (\<lambda>p. digits_value (fst p)) (filter (\<lambda>p. is_array_index (fst p)) um)
            @ filter (\<lambda>p. \<not> is_array_index (fst p)) um"
  have 1: "distinct ?ordered"
    using d by auto
  have "set ?ordered = set um"
    by auto
  with inj have 2: "inj_on fst (set ?ordered)"
    by (simp only:)
  from 1 2 show ?thesis
    unfolding distinct_map by (rule conjI)
qed

lemma remove_duplicates_properties:
  "distinct (map identity (remove_duplicates ms)) \<and>
   (\<forall>u \<in> set (remove_duplicates ms). first_highest ms u) \<and>
   identity ` set (remove_duplicates ms) = identity ` set ms - set Object_prototype_properties"
proof -
  let ?um = "foldl keep_highest [] ms"
  let ?proto = "set Object_prototype_properties"
  let ?ordered = "sort_key (\<lambda>p. digits_value (fst p)) (filter (\<lambda>p. is_array_index (fst p)) ?um)
            @ filter (\<lambda>p. \<not> is_array_index (fst p)) ?um"
  have d: "distinct (map fst ?um)"
    by (rule foldl_keep_highest_distinct) simp
  note e = foldl_keep_highest_entries [of ms]
  have key: "identity u = k" "k \<notin> ?proto" "first_highest ms u" if "(k, u) \<in> set ?um" for k u
    using e that d by auto
  have out: "remove_duplicates ms = map snd ?ordered"
    by (simp add: remove_duplicates_def Object_values_def)
  have same: "set ?ordered = set ?um"
    by auto
  have "map identity (remove_duplicates ms) = map fst ?ordered"
    unfolding out using key(1) same by auto
  with Object_values_keys [OF d] have 1: "distinct (map identity (remove_duplicates ms))"
    by simp
  have members: "set (remove_duplicates ms) = snd ` set ?um"
    by (simp add: remove_duplicates_def Object_values_set)
  have 2: "\<forall>u \<in> set (remove_duplicates ms). first_highest ms u"
    unfolding members using key(3) by auto
  have "identity ` set ms - ?proto \<subseteq> identity ` set (remove_duplicates ms)"
  proof
    fix k assume "k \<in> identity ` set ms - ?proto"
    then obtain c where "c \<in> set ms" "k = identity c" "identity c \<notin> ?proto" by auto
    with e obtain u where "map_of ?um k = Some u" by auto
    with d have "(k, u) \<in> set ?um" by simp
    with key(1) [OF this] show "k \<in> identity ` set (remove_duplicates ms)"
      unfolding members by force
  qed
  moreover have "identity ` set (remove_duplicates ms) \<subseteq> identity ` set ms - ?proto"
  proof
    fix k assume "k \<in> identity ` set (remove_duplicates ms)"
    then obtain p where p: "p \<in> set ?um" "k = identity (snd p)"
      unfolding members by auto
    with key [of "fst p" "snd p"] have "k \<notin> ?proto" "first_highest ms (snd p)" by auto
    with p first_highest_mem show "k \<in> identity ` set ms - ?proto" by auto
  qed
  ultimately show ?thesis using 1 2 by blast
qed

lemma matchFaceWithStudents_candidates:
  "fst (matchFaceWithStudents env s detectedFaces imageElement students)
     = remove_duplicates (candidates env s imageElement students detectedFaces)"
proof -
  obtain ms s' where c: "collect_matches env s imageElement students detectedFaces [] = (ms, s')"
    by (cases "collect_matches env s imageElement students detectedFaces []")
  with collect_matches_candidates [of env s imageElement students detectedFaces "[]"]
  have "ms = candidates env s imageElement students detectedFaces" by simp
  with c show ?thesis by (simp add: matchFaceWithStudents_def)
qed

lemma candidates_set:
  "c \<in> set (candidates env s imageElement students faces) \<longleftrightarrow>
     (\<exists>e \<in> set (probe_embeddings env s imageElement faces). \<exists>st \<in> set students. \<exists>enc.
        face_encoding st = Some enc \<and> calculateSimilarity e enc > 7 / 10 \<and>
        c = \<lparr>student = st, confidence = calculateSimilarity e enc\<rparr>)"
  by (simp add: candidates_def compare_with_students_set threshold_def)

text \<open>
  C4. The matcher returns at most one match per identity. Each returned match is one of the
  retained comparisons, those of a probe with a student's reference embedding whose
  similarity is strictly greater than 0.7, and no retained comparison of the same identity,
  from any probe region, has a higher similarity. So all other matches of an identity are
  dropped. Every identity with a retained comparison is returned, but for an id that names a
  property of \<^verbatim>\<open>Object.prototype\<close>, which is never returned.
\<close>

theorem matchFaceWithStudents_highest_per_identity:
  "distinct (map identity (fst (matchFaceWithStudents env s detectedFaces imageElement students))) \<and>
   (\<forall>u \<in> set (fst (matchFaceWithStudents env s detectedFaces imageElement students)).
      u \<in> set (candidates env s imageElement students detectedFaces) \<and>
      (\<forall>c \<in> set (candidates env s imageElement students detectedFaces).
         identity c = identity u \<longrightarrow> confidence c \<le> confidence u)) \<and>
   identity ` set (fst (matchFaceWithStudents env s detectedFaces imageElement students))
     = identity ` set (candidates env s imageElement students detectedFaces)
         - set Object_prototype_properties \<and>
   (\<forall>c. c \<in> set (candidates env s imageElement students detectedFaces) \<longleftrightarrow>
      (\<exists>e \<in> set (probe_embeddings env s imageElement detectedFaces). \<exists>st \<in> set students. \<exists>enc.
         face_encoding st = Some enc \<and> calculateSimilarity e enc > 7 / 10 \<and>
         c = \<lparr>student = st, confidence = calculateSimilarity e enc\<rparr>))"
proof -
  let ?cands = "candidates env s imageElement students detectedFaces"
  note out = matchFaceWithStudents_candidates [of env s detectedFaces imageElement students]
  note p = remove_duplicates_properties [of ?cands]
  have 1: "distinct (map identity (remove_duplicates ?cands))"
    using p by (rule conjunct1)
  have fh: "\<forall>u \<in> set (remove_duplicates ?cands). first_highest ?cands u"
    using p by blast
  have 2: "\<forall>u \<in> set (remove_duplicates ?cands).
      u \<in> set ?cands \<and> (\<forall>c \<in> set ?cands. identity c = identity u \<longrightarrow> confidence c \<le> confidence u)"
    using fh first_highest_mem first_highest_bound by blast
  have 3: "identity ` set (remove_duplicates ?cands)
      = identity ` set ?cands - set Object_prototype_properties"
    using p by (elim conjE)
  have 4: "\<forall>c. c \<in> set ?cands \<longleftrightarrow>
      (\<exists>e \<in> set (probe_embeddings env s imageElement detectedFaces). \<exists>st \<in> set students. \<exists>enc.
         face_encoding st = Some enc \<and> calculateSimilarity e enc > 7 / 10 \<and>
         c = \<lparr>student = st, confidence = calculateSimilarity e enc\<rparr>)"
    using candidates_set [of _ env s imageElement students detectedFaces] by (rule allI)
  from 1 2 3 4 show ?thesis
    unfolding out by (intro conjI)
qed

theorem matchFaceWithStudents_highest_per_identity_witness:
  "let env = \<lparr>pipeline_object_detection = Inl (Error ''unused''),
              pipeline_feature_extraction = Inl (Error ''unused''),
              getContext_2d = True, drawImage = (\<lambda>i b. b)\<rparr>;
       s = \<lparr>detector = None, embedder = Some (\<lambda>b. Inr [xmin b, ymin b]), initialized = True\<rparr>;
       faces = [\<lparr>box = \<lparr>xmin = 4 / 5, ymin = 3 / 5, xmax = 2, ymax = 2\<rparr>, score = 9 / 10,
                  embedding = None\<rparr>,
                \<lparr>box = \<lparr>xmin = 3 / 5, ymin = 4 / 5, xmax = 2, ymax = 2\<rparr>, score = 9 / 10,
                  embedding = None\<rparr>,
                \<lparr>box = \<lparr>xmin = 1, ymin = 0, xmax = 2, ymax = 2\<rparr>, score = 9 / 10,
                  embedding = None\<rparr>];
       s1 = \<lparr>id' = ''u1'', name = ''Student 1'', Student.student_id = ''S001'',
              face_encoding = Some [1, 0]\<rparr>;
       s2 = \<lparr>id' = ''u2'', name = ''Student 2'', Student.student_id = ''S002'',
              face_encoding = Some [0, 1]\<rparr>;
       s3 = \<lparr>id' = ''u3'', name = ''Student 3'', Student.student_id = ''S003'',
              face_encoding = None\<rparr>;
       s4 = \<lparr>id' = ''constructor'', name = ''Student 4'', Student.student_id = ''S004'',
              face_encoding = Some [1, 0]\<rparr>
   in candidates env s () [s1, s2, s3, s4] faces
        = [\<lparr>student = s1, confidence = 4 / 5\<rparr>, \<lparr>student = s4, confidence = 4 / 5\<rparr>,
           \<lparr>student = s2, confidence = 4 / 5\<rparr>,
           \<lparr>student = s1, confidence = 1\<rparr>, \<lparr>student = s4, confidence = 1\<rparr>] \<and>
      fst (matchFaceWithStudents env s faces () [s1, s2, s3, s4])
        = [\<lparr>student = s1, confidence = 1\<rparr>, \<lparr>student = s2, confidence = 4 / 5\<rparr>]"
proof -
  let ?env = "\<lparr>pipeline_object_detection = Inl (Error ''unused''),
              pipeline_feature_extraction = Inl (Error ''unused''),
              getContext_2d = True, drawImage = (\<lambda>(i :: unit) (b :: Box). b)\<rparr>"
  let ?s = "\<lparr>detector = None :: unit detector_model option,
            embedder = Some (\<lambda>b. Inr [xmin b, ymin b]), initialized = True\<rparr>"
  let ?faces = "[\<lparr>box = \<lparr>xmin = 4 / 5, ymin = 3 / 5, xmax = 2, ymax = 2\<rparr>, score = 9 / 10,
                  embedding = None\<rparr>,
                \<lparr>box = \<lparr>xmin = 3 / 5, ymin = 4 / 5, xmax = 2, ymax = 2\<rparr>, score = 9 / 10,
                  embedding = None\<rparr>,
                \<lparr>box = \<lparr>xmin = 1, ymin = 0, xmax = 2, ymax = 2\<rparr>, score = 9 / 10,
                  embedding = None\<rparr>]"
  let ?roster = "[\<lparr>id' = ''u1'', name = ''Student 1'', Student.student_id = ''S001'',
                   face_encoding = Some [1, 0]\<rparr>,
                  \<lparr>id' = ''u2'', name = ''Student 2'', Student.student_id = ''S002'',
                   face_encoding = Some [0, 1]\<rparr>,
                  \<lparr>id' = ''u3'', name = ''Student 3'', Student.student_id = ''S003'',
                   face_encoding = None\<rparr>,
                  \<lparr>id' = ''constructor'', name = ''Student 4'', Student.student_id = ''S004'',
                   face_encoding = Some [1, 0]\<rparr>]"
  from matchFaceWithStudents_highest_per_identity [of ?env ?s ?faces "()" ?roster]
  show ?thesis
    by (simp add: matchFaceWithStudents_def candidates_def cropFaceFromImage_def
        extractFaceEmbedding_def embed_try_def calculateSimilarity_def threshold_def
        remove_duplicates_def keep_highest_def get_property_def
        Object_prototype_properties_def Object_values_def is_array_index_def is_digit_def
        Let_def)
qed



end
